theory Spec2Isabelle
  imports Complex_Main "HOL-Library.Sublist"
begin

section \<open>Strings\<close>

text \<open>
  A JavaScript string is modelled as a \<^typ>\<open>string\<close>, one \<^typ>\<open>char\<close> per code unit
  (code units below 256). \<open>String.prototype.trim\<close> strips the characters that ECMAScript
  calls WhiteSpace or LineTerminator from both ends; below 256 these are TAB, LF, VT, FF,
  CR, SPACE and NO-BREAK SPACE. A string is truthy exactly when it is not empty.
\<close>

definition isWhiteSpace :: "char \<Rightarrow> bool" where
  "isWhiteSpace c =
     (c = CHR 0x09 \<or> c = CHR 0x0A \<or> c = CHR 0x0B \<or> c = CHR 0x0C \<or> c = CHR 0x0D
      \<or> c = CHR 0x20 \<or> c = CHR 0xA0)"

definition trim :: "string \<Rightarrow> string" where
  "trim s = rev (dropWhile isWhiteSpace (rev (dropWhile isWhiteSpace s)))"

definition truthy :: "string \<Rightarrow> bool" where
  "truthy s = (s \<noteq> [])"

section \<open>Prompt composition (\<open>generateImageFromImage\<close>, lines 20 to 51)\<close>

text \<open>
  The local variables of the source keep their names. \<open>influence\<close> is a JavaScript
  number; only the comparisons \<open>> 70\<close> and \<open>> 30\<close> are applied to it, which are exact, so
  it is modelled as a real number.
\<close>

definition fullPrompt :: "string \<Rightarrow> string \<Rightarrow> string \<Rightarrow> string" where
  \<open>fullPrompt basePrompt characterDescription sceneDescription =
     (let p0 = basePrompt;
          p1 = (if truthy (trim characterDescription)
                then p0 @ '' The character should also be described as: "''
                        @ characterDescription @ ''".''
                else p0);
          p2 = (if truthy (trim sceneDescription)
                then p1 @ '' The scene and action should be: "''
                        @ sceneDescription @ ''".''
                else p1)
      in p2)\<close>

definition influencePrompt :: "real \<Rightarrow> string" where
  "influencePrompt influence =
     (if influence > 70 then
        '' The overall style, clothing, and background should adhere closely to the descriptions provided.''
      else if influence > 30 then
        '' Use the descriptions as a strong reference, but allow for some artistic stylization in the clothing and background.''
      else
        '' Use the descriptions as a loose inspiration for the style, clothing, and background, allowing for significant creative interpretation.'')"

definition qualityPrompt :: "string \<Rightarrow> string" where
  "qualityPrompt outputQuality =
     (if outputQuality = ''high'' then
        '' Generate the final image in high definition (HD) with photorealistic details, aiming for a resolution between 2K and 4K.''
      else
        '' Generate the final image in a standard definition, suitable for web display, around 720p resolution.'')"

definition facePreservationInstruction :: string where
  "facePreservationInstruction =
     '' It is absolutely critical to preserve the person's face from the original image perfectly. Do not alter the facial features, structure, or identity in any way.''"

definition finalPrompt :: "string \<Rightarrow> real \<Rightarrow> string \<Rightarrow> string \<Rightarrow> string \<Rightarrow> string" where
  "finalPrompt basePrompt influence characterDescription sceneDescription outputQuality =
     fullPrompt basePrompt characterDescription sceneDescription
       @ influencePrompt influence @ facePreservationInstruction @ qualityPrompt outputQuality"

subsection \<open>The vocabulary of the specification\<close>

text \<open>
  The specification names the clauses; these constants give each name the text that the
  source appends for it. A description is blank when every character of it is white
  space.
\<close>

definition adhereCloselyClause :: string where
  "adhereCloselyClause =
     '' The overall style, clothing, and background should adhere closely to the descriptions provided.''"

definition strongReferenceClause :: string where
  "strongReferenceClause =
     '' Use the descriptions as a strong reference, but allow for some artistic stylization in the clothing and background.''"

definition looseInspirationClause :: string where
  "looseInspirationClause =
     '' Use the descriptions as a loose inspiration for the style, clothing, and background, allowing for significant creative interpretation.''"

definition hdQualityClause :: string where
  "hdQualityClause =
     '' Generate the final image in high definition (HD) with photorealistic details, aiming for a resolution between 2K and 4K.''"

definition standardQualityClause :: string where
  "standardQualityClause =
     '' Generate the final image in a standard definition, suitable for web display, around 720p resolution.''"

definition facePreservationClause :: string where
  "facePreservationClause =
     '' It is absolutely critical to preserve the person's face from the original image perfectly. Do not alter the facial features, structure, or identity in any way.''"

definition quoted :: "string \<Rightarrow> string" where
  "quoted s = [CHR 0x22] @ s @ [CHR 0x22]"

definition characterClause :: "string \<Rightarrow> string" where
  "characterClause c = '' The character should also be described as: '' @ quoted c @ ''.''"

definition sceneClause :: "string \<Rightarrow> string" where
  "sceneClause s = '' The scene and action should be: '' @ quoted s @ ''.''"

definition blank :: "string \<Rightarrow> bool" where
  "blank s = list_all isWhiteSpace s"

section \<open>The generation client (\<open>generateImageFromImage\<close>, \<open>removeImageBackground\<close>)\<close>

text \<open>
  A thrown value is an \<open>Error\<close> with its message, a \<open>TypeError\<close> (an \<open>Error\<close> too, raised
  by the language itself when a property of \<open>undefined\<close> is read or \<open>undefined\<close> is
  iterated; its message is the engine's), or a value that is no \<open>Error\<close> at all.
  A promise that rejects, or a block that throws, is \<open>Inl\<close>; one that resolves is \<open>Inr\<close>.
\<close>

datatype thrown = Error string | TypeError string | NonError

fun instanceofError :: "thrown \<Rightarrow> bool" where
  "instanceofError (Error m) = True"
| "instanceofError (TypeError m) = True"
| "instanceofError NonError = False"

fun message :: "thrown \<Rightarrow> string" where
  "message (Error m) = m"
| "message (TypeError m) = m"
| "message NonError = []"

text \<open>
  The request and the response of the remote model, with the fields the source reads and
  writes. A part carries inline data, or text, or neither; in a response every level of
  \<open>response.candidates[0].content.parts\<close> may be missing.
\<close>

record Blob =
  data :: string
  mimeType :: string

record Part =
  inlineData :: "Blob option"
  "text" :: "string option"

record Content =
  parts :: "Part list option"

record Candidate =
  content :: "Content option"

record GenerateContentResponse =
  candidates :: "Candidate list option"

datatype Modality = TEXT | IMAGE | AUDIO

record GenerateContentParameters =
  model :: string
  contents :: "Part list"
  responseModalities :: "Modality list"

record File =
  name :: string
  type :: string
  bytes :: string

text \<open>
  What the program cannot decide is a parameter: how the remote model answers a request
  (\<open>ai.models.generateContent\<close>), what \<open>fileToBase64\<close> resolves to (it wraps the browser's
  \<open>FileReader\<close>), and what the browser's \<open>fetch\<close> of a data URL, followed by \<open>blob()\<close>,
  yields. The effects that leave the program are recorded: the lines written with
  \<open>console.error\<close> and the requests sent to the remote model, oldest first.
\<close>

record Env =
  generateContent :: "GenerateContentParameters \<Rightarrow> thrown + GenerateContentResponse"
  fileToBase64 :: "File \<Rightarrow> thrown + string"
  fetchBlob :: "string \<Rightarrow> thrown + string"

datatype ConsoleArg = Str string | Thrown thrown

record World =
  console :: "ConsoleArg list list"
  requests :: "GenerateContentParameters list"

definition console_error :: "ConsoleArg list \<Rightarrow> World \<Rightarrow> World" where
  "console_error args w = w\<lparr>console := console w @ [args]\<rparr>"

definition send :: "GenerateContentParameters \<Rightarrow> World \<Rightarrow> World" where
  "send request w = w\<lparr>requests := requests w @ [request]\<rparr>"

text \<open>
  The expression \<open>response.candidates[0].content.parts\<close> as the \<open>for ... of\<close> loop needs it:
  reading a property of \<open>undefined\<close> and iterating \<open>undefined\<close> throw a \<open>TypeError\<close>.
\<close>

definition responseParts :: "GenerateContentResponse \<Rightarrow> thrown + Part list" where
  "responseParts response =
     (case candidates response of
        None \<Rightarrow> Inl (TypeError ''Cannot read properties of undefined (reading '0')'')
      | Some [] \<Rightarrow> Inl (TypeError ''Cannot read properties of undefined (reading 'content')'')
      | Some (candidate # _) \<Rightarrow>
          (case content candidate of
             None \<Rightarrow> Inl (TypeError ''Cannot read properties of undefined (reading 'parts')'')
           | Some c \<Rightarrow>
               (case parts c of
                  None \<Rightarrow> Inl (TypeError ''response.candidates[0].content.parts is not iterable'')
                | Some ps \<Rightarrow> Inr ps)))"

text \<open>
  The loop \<open>for (const part of ...) { if (part.inlineData) return part.inlineData.data; }\<close>:
  \<open>Some\<close> is the value returned from inside the loop, \<open>None\<close> is falling out of it.
\<close>

fun scanParts :: "Part list \<Rightarrow> string option" where
  "scanParts [] = None"
| "scanParts (part # rest) =
     (case inlineData part of
        Some blob \<Rightarrow> Some (data blob)
      | None \<Rightarrow> scanParts rest)"

definition transformRequest :: "string \<Rightarrow> string \<Rightarrow> string \<Rightarrow> GenerateContentParameters" where
  "transformRequest base64ImageData mimeType' finalPrompt' =
     \<lparr>model = ''gemini-2.5-flash-image'',
      contents =
        [\<lparr>inlineData = Some \<lparr>data = base64ImageData, mimeType = mimeType'\<rparr>, text = None\<rparr>,
         \<lparr>inlineData = None, text = Some finalPrompt'\<rparr>],
      responseModalities = [IMAGE]\<rparr>"

text \<open>The \<open>try\<close> block of \<open>generateImageFromImage\<close> (lines 19 to 81).\<close>

definition generateImageFromImage_try ::
  "Env \<Rightarrow> string \<Rightarrow> string \<Rightarrow> string \<Rightarrow> real \<Rightarrow> string \<Rightarrow> string \<Rightarrow> string \<Rightarrow> World
     \<Rightarrow> (thrown + string) \<times> World" where
  "generateImageFromImage_try env base64ImageData mimeType' basePrompt influence
       characterDescription sceneDescription outputQuality w =
     (let finalPrompt' =
            finalPrompt basePrompt influence characterDescription sceneDescription outputQuality;
          request = transformRequest base64ImageData mimeType' finalPrompt';
          w1 = send request w
      in case generateContent env request of
           Inl rejected \<Rightarrow> (Inl rejected, w1)
         | Inr response \<Rightarrow>
             (case responseParts response of
                Inl typeError \<Rightarrow> (Inl typeError, w1)
              | Inr ps \<Rightarrow>
                  (case scanParts ps of
                     Some d \<Rightarrow> (Inr d, w1)
                   | None \<Rightarrow>
                       (Inl (Error ''No image data found in the Gemini API response.''), w1))))"

text \<open>The whole function: the \<open>catch\<close> clause (lines 82 to 85) logs what was thrown and
  throws a new error in its place.\<close>

definition generateImageFromImage ::
  "Env \<Rightarrow> string \<Rightarrow> string \<Rightarrow> string \<Rightarrow> real \<Rightarrow> string \<Rightarrow> string \<Rightarrow> string \<Rightarrow> World
     \<Rightarrow> (thrown + string) \<times> World" where
  "generateImageFromImage env base64ImageData mimeType' basePrompt influence
       characterDescription sceneDescription outputQuality w =
     (case generateImageFromImage_try env base64ImageData mimeType' basePrompt influence
             characterDescription sceneDescription outputQuality w of
        (Inr d, w1) \<Rightarrow> (Inr d, w1)
      | (Inl error, w1) \<Rightarrow>
          (Inl (Error ''Failed to generate image. Please check the console for more details.''),
           console_error [Str ''Error calling Gemini API:'', Thrown error] w1))"

definition removeBackgroundRequest :: "string \<Rightarrow> string \<Rightarrow> GenerateContentParameters" where
  "removeBackgroundRequest base64ImageData mimeType' =
     \<lparr>model = ''gemini-2.5-flash-image'',
      contents =
        [\<lparr>inlineData = Some \<lparr>data = base64ImageData, mimeType = mimeType'\<rparr>, text = None\<rparr>,
         \<lparr>inlineData = None,
          text = Some ''Remove the background from the image, making it transparent. The main subject should be perfectly preserved. Output a PNG with a transparent background.''\<rparr>],
      responseModalities = [IMAGE]\<rparr>"

text \<open>The \<open>try\<close> block of \<open>removeImageBackground\<close> (lines 89 to 117).\<close>

definition removeImageBackground_try ::
  "Env \<Rightarrow> string \<Rightarrow> string \<Rightarrow> World \<Rightarrow> (thrown + string) \<times> World" where
  "removeImageBackground_try env base64ImageData mimeType' w =
     (let request = removeBackgroundRequest base64ImageData mimeType';
          w1 = send request w
      in case generateContent env request of
           Inl rejected \<Rightarrow> (Inl rejected, w1)
         | Inr response \<Rightarrow>
             (case responseParts response of
                Inl typeError \<Rightarrow> (Inl typeError, w1)
              | Inr ps \<Rightarrow>
                  (case scanParts ps of
                     Some d \<Rightarrow> (Inr d, w1)
                   | None \<Rightarrow>
                       (Inl (Error ''No image data found in the Gemini API response for background removal.''),
                        w1))))"

text \<open>The whole function, with its \<open>catch\<close> clause (lines 118 to 121).\<close>

definition removeImageBackground ::
  "Env \<Rightarrow> string \<Rightarrow> string \<Rightarrow> World \<Rightarrow> (thrown + string) \<times> World" where
  "removeImageBackground env base64ImageData mimeType' w =
     (case removeImageBackground_try env base64ImageData mimeType' w of
        (Inr d, w1) \<Rightarrow> (Inr d, w1)
      | (Inl error, w1) \<Rightarrow>
          (Inl (Error ''Failed to remove background. Please check the console for more details.''),
           console_error [Str ''Error calling Gemini API for background removal:'', Thrown error]
             w1))"

section \<open>The application state and its handlers (\<open>App\<close>)\<close>

text \<open>
  The style catalogue: entries with the fields \<open>id\<close>, \<open>name\<close> and \<open>prompt\<close>, and the four
  entries of \<open>styleOptions\<close>. The handlers below take the catalogue as a parameter, so what is
  proved of them holds for \<open>styleOptions\<close> and for any other catalogue.
\<close>

record StyleOption =
  id' :: string
  name' :: string
  prompt :: string

definition styleOptions :: "StyleOption list" where
  "styleOptions =
     [\<lparr>id' = ''business-professional'',
       name' = ''Business Professional'',
       prompt = ''Transform the person in the image to be wearing professional business attire, suitable for an office or corporate setting. Keep the original face and background mostly intact.''\<rparr>,
      \<lparr>id' = ''evening-gown'',
       name' = ''Evening Gown / Formal Wear'',
       prompt = ''Redress the person in the image in an elegant evening gown or a formal suit. The setting should look like a gala or a formal event. Preserve the original facial features.''\<rparr>,
      \<lparr>id' = ''cyberpunk'',
       name' = ''Cyberpunk'',
       prompt = ''Reimagine the person in the image as a cyberpunk character. Add futuristic clothing, neon lighting effects, and subtle cybernetic enhancements, but keep the person recognizable.''\<rparr>,
      \<lparr>id' = ''fantasy-adventurer'',
       name' = ''Fantasy Adventurer'',
       prompt = ''Change the person's clothing into that of a fantasy adventurer (like a ranger or a mage). Add a fitting, magical, or natural background while maintaining the person's face.''\<rparr>]"

text \<open>The ten \<open>useState\<close> cells of the component, with the initial values of lines 31 to 40.\<close>

record AppState =
  uploadedImage :: "File option"
  generatedImage :: "string option"
  isLoading :: bool
  isRemovingBackground :: bool
  error :: "string option"
  selectedStyle :: string
  referenceInfluence :: real
  characterDescription :: string
  sceneDescription :: string
  outputQuality :: string

definition initialState :: AppState where
  "initialState =
     \<lparr>uploadedImage = None, generatedImage = None, isLoading = False,
      isRemovingBackground = False, error = None, selectedStyle = [],
      referenceInfluence = 75, characterDescription = [], sceneDescription = [],
      outputQuality = ''standard''\<rparr>"

text \<open>
  A handler reads the state of the render it was created in and calls setters. It is
  modelled by the list of its setter calls, in the order it makes them; \<open>render\<close> gives the
  state once all of them are applied, and \<open>states\<close> every state on the way, whatever the
  grouping in which the framework applies them.
\<close>

datatype Action =
    SetUploadedImage "File option"
  | SetGeneratedImage "string option"
  | SetIsLoading bool
  | SetIsRemovingBackground bool
  | SetError "string option"

fun setState :: "Action \<Rightarrow> AppState \<Rightarrow> AppState" where
  "setState (SetUploadedImage v) s = s\<lparr>uploadedImage := v\<rparr>"
| "setState (SetGeneratedImage v) s = s\<lparr>generatedImage := v\<rparr>"
| "setState (SetIsLoading v) s = s\<lparr>isLoading := v\<rparr>"
| "setState (SetIsRemovingBackground v) s = s\<lparr>isRemovingBackground := v\<rparr>"
| "setState (SetError v) s = s\<lparr>error := v\<rparr>"

fun render :: "AppState \<Rightarrow> Action list \<Rightarrow> AppState" where
  "render s [] = s"
| "render s (a # as) = render (setState a s) as"

fun states :: "AppState \<Rightarrow> Action list \<Rightarrow> AppState list" where
  "states s [] = [s]"
| "states s (a # as) = s # states (setState a s) as"

text \<open>\<open>base64ToFile\<close> (lines 23 to 27): the fetched blob becomes a PNG file of the given name.\<close>

definition base64ToFile :: "Env \<Rightarrow> string \<Rightarrow> string \<Rightarrow> thrown + File" where
  "base64ToFile env base64 filename =
     (case fetchBlob env (''data:image/png;base64,'' @ base64) of
        Inl rejected \<Rightarrow> Inl rejected
      | Inr blob \<Rightarrow> Inr \<lparr>name = filename, type = ''image/png'', bytes = blob\<rparr>)"

text \<open>\<open>handleImageUpload\<close> (lines 43 to 47).\<close>

definition handleImageUpload :: "File \<Rightarrow> Action list" where
  "handleImageUpload file = [SetUploadedImage (Some file), SetGeneratedImage None, SetError None]"

text \<open>
  \<open>handleRemoveBackgroundClick\<close> (lines 49 to 72): first its \<open>try\<close> block, which yields the
  new file or what was thrown, then the handler with the \<open>catch\<close> and \<open>finally\<close> clauses.
\<close>

definition handleRemoveBackgroundClick_try ::
  "Env \<Rightarrow> File \<Rightarrow> World \<Rightarrow> (thrown + File) \<times> World" where
  "handleRemoveBackgroundClick_try env file w =
     (case fileToBase64 env file of
        Inl rejected \<Rightarrow> (Inl rejected, w)
      | Inr base64ImageData \<Rightarrow>
          (let mimeType' = type file in
           case removeImageBackground env base64ImageData mimeType' w of
             (Inl err, w1) \<Rightarrow> (Inl err, w1)
           | (Inr processedData, w1) \<Rightarrow>
               (case base64ToFile env processedData (''bg_removed_'' @ name file) of
                  Inl rejected \<Rightarrow> (Inl rejected, w1)
                | Inr newImageFile \<Rightarrow> (Inr newImageFile, w1))))"

definition handleRemoveBackgroundClick ::
  "Env \<Rightarrow> AppState \<Rightarrow> World \<Rightarrow> Action list \<times> World" where
  "handleRemoveBackgroundClick env s w =
     (case uploadedImage s of
        None \<Rightarrow> ([SetError (Some ''Please upload an image first.'')], w)
      | Some file \<Rightarrow>
          (case handleRemoveBackgroundClick_try env file w of
             (Inr newImageFile, w1) \<Rightarrow>
               ([SetIsRemovingBackground True, SetError None,
                 SetUploadedImage (Some newImageFile),
                 SetIsRemovingBackground False], w1)
           | (Inl err, w1) \<Rightarrow>
               ([SetIsRemovingBackground True, SetError None,
                 SetError (Some (if instanceofError err then message err
                                 else ''An unknown error occurred during background removal.'')),
                 SetIsRemovingBackground False],
                console_error [Thrown err] w1)))"

text \<open>\<open>handleGenerateClick\<close> (lines 74 to 101), in the same two steps.\<close>

definition handleGenerateClick_try ::
  "StyleOption list \<Rightarrow> Env \<Rightarrow> AppState \<Rightarrow> File \<Rightarrow> World \<Rightarrow> (thrown + string) \<times> World" where
  "handleGenerateClick_try options env s file w =
     (case fileToBase64 env file of
        Inl rejected \<Rightarrow> (Inl rejected, w)
      | Inr base64ImageData \<Rightarrow>
          (let mimeType' = type file in
           case find (\<lambda>opt. id' opt = selectedStyle s) options of
             None \<Rightarrow> (Inl (Error ''Invalid style selected.''), w)
           | Some style \<Rightarrow>
               generateImageFromImage env base64ImageData mimeType' (prompt style)
                 (referenceInfluence s) (characterDescription s) (sceneDescription s)
                 (outputQuality s) w))"

definition handleGenerateClick ::
  "StyleOption list \<Rightarrow> Env \<Rightarrow> AppState \<Rightarrow> World \<Rightarrow> Action list \<times> World" where
  "handleGenerateClick options env s w =
     (case uploadedImage s of
        None \<Rightarrow> ([SetError (Some ''Please upload an image and select a style.'')], w)
      | Some file \<Rightarrow>
          if \<not> truthy (selectedStyle s)
          then ([SetError (Some ''Please upload an image and select a style.'')], w)
          else
            (case handleGenerateClick_try options env s file w of
               (Inr generatedData, w1) \<Rightarrow>
                 ([SetIsLoading True, SetError None, SetGeneratedImage None,
                   SetGeneratedImage (Some (''data:image/png;base64,'' @ generatedData)),
                   SetIsLoading False], w1)
             | (Inl err, w1) \<Rightarrow>
                 ([SetIsLoading True, SetError None, SetGeneratedImage None,
                   SetError (Some (if instanceofError err then message err
                                   else ''An unknown error occurred during image generation.'')),
                   SetIsLoading False],
                  console_error [Thrown err] w1)))"

section \<open>Simulated responses and environments\<close>

text \<open>
  Concrete inputs on which the model is run: a response whose only part is text, a response
  whose second and third parts carry image data, an environment whose remote model gives
  one fixed answer to every request (and whose file reader and \<open>fetch\<close> succeed, taking a
  file's bytes for their base64 text), a world in which nothing has happened yet, and an
  application state with one uploaded photo.
\<close>

definition textOnlyResponse :: GenerateContentResponse where
  "textOnlyResponse =
     \<lparr>candidates = Some [\<lparr>content = Some \<lparr>parts = Some
        [\<lparr>inlineData = None, text = Some ''I cannot edit this picture.''\<rparr>]\<rparr>\<rparr>]\<rparr>"

definition imageSecondResponse :: GenerateContentResponse where
  "imageSecondResponse =
     \<lparr>candidates = Some [\<lparr>content = Some \<lparr>parts = Some
        [\<lparr>inlineData = None, text = Some ''Here is your picture.''\<rparr>,
         \<lparr>inlineData = Some \<lparr>data = ''AAAA'', mimeType = ''image/png''\<rparr>, text = None\<rparr>,
         \<lparr>inlineData = Some \<lparr>data = ''BBBB'', mimeType = ''image/png''\<rparr>, text = None\<rparr>]\<rparr>\<rparr>]\<rparr>"

definition answering :: "thrown + GenerateContentResponse \<Rightarrow> Env" where
  "answering answer =
     \<lparr>generateContent = (\<lambda>request. answer),
      fileToBase64 = (\<lambda>file. Inr (bytes file)),
      fetchBlob = (\<lambda>url. Inr (drop 22 url))\<rparr>"

definition emptyWorld :: World where
  "emptyWorld = \<lparr>console = [], requests = []\<rparr>"

definition catFile :: File where
  "catFile = \<lparr>name = ''cat.jpg'', type = ''image/jpeg'', bytes = ''QUJD''\<rparr>"

definition uploadedState :: AppState where
  "uploadedState = initialState\<lparr>uploadedImage := Some catFile\<rparr>"

section \<open>Properties of the prompt composer\<close>

lemma trim_Nil_iff_blank: "trim s = [] \<longleftrightarrow> blank s"
proof
  assume "trim s = []"
  then have a: "\<forall>x \<in> set (dropWhile isWhiteSpace s). isWhiteSpace x"
    by (simp add: trim_def)
  show "blank s"
  proof (cases "dropWhile isWhiteSpace s")
    case Nil
    then show ?thesis by (simp add: blank_def list_all_iff)
  next
    case (Cons x xs)
    then have "\<not> isWhiteSpace x" by (metis hd_dropWhile list.sel(1) list.distinct(1))
    with a Cons show ?thesis by simp
  qed
next
  assume "blank s"
  then show "trim s = []"
    by (auto simp: trim_def blank_def list_all_iff dest: set_dropWhileD)
qed

lemma truthy_trim: "truthy (trim s) \<longleftrightarrow> \<not> blank s"
  by (simp add: truthy_def trim_Nil_iff_blank)

lemma fullPrompt_clauses:
  "fullPrompt b c s =
     b @ (if blank c then [] else characterClause c) @ (if blank s then [] else sceneClause s)"
  by (simp add: fullPrompt_def Let_def truthy_trim characterClause_def sceneClause_def quoted_def)

lemma finalPrompt_clauses:
  "finalPrompt b i c s q =
     b @ (if blank c then [] else characterClause c) @ (if blank s then [] else sceneClause s)
       @ influencePrompt i @ facePreservationInstruction @ qualityPrompt q"
  by (simp add: finalPrompt_def fullPrompt_clauses)

lemma sublist_middle: "sublist x (a @ b @ x @ c)"
proof -
  have "a @ b @ x @ c = (a @ b) @ x @ c" by simp
  then show ?thesis by (simp only: sublist_appendI)
qed

text \<open>
  C2. For every influence in [0,100] the composer appends exactly one of the three
  influence clauses, between the descriptions and the face-preservation clause: the
  adhere-closely clause above 70, the strong-reference clause above 30 and up to 70, the
  loose-inspiration clause up to 30. The three clauses are pairwise different, and 30 is
  in the loose band, 70 in the strong-reference band, 71 in the adhere-closely band.
\<close>

theorem influence_bands:
  assumes "0 \<le> influence" and "influence \<le> 100"
  shows "(70 < influence \<longrightarrow> influencePrompt influence = adhereCloselyClause)
       \<and> (30 < influence \<and> influence \<le> 70 \<longrightarrow> influencePrompt influence = strongReferenceClause)
       \<and> (influence \<le> 30 \<longrightarrow> influencePrompt influence = looseInspirationClause)
       \<and> finalPrompt b influence c s q =
           fullPrompt b c s @ influencePrompt influence @ facePreservationInstruction
             @ qualityPrompt q
       \<and> adhereCloselyClause \<noteq> strongReferenceClause
       \<and> adhereCloselyClause \<noteq> looseInspirationClause
       \<and> strongReferenceClause \<noteq> looseInspirationClause
       \<and> influencePrompt 30 = looseInspirationClause
       \<and> influencePrompt 70 = strongReferenceClause
       \<and> influencePrompt 71 = adhereCloselyClause"
proof -
  have bands: "(70 < influence \<longrightarrow> influencePrompt influence = adhereCloselyClause)
       \<and> (30 < influence \<and> influence \<le> 70 \<longrightarrow> influencePrompt influence = strongReferenceClause)
       \<and> (influence \<le> 30 \<longrightarrow> influencePrompt influence = looseInspirationClause)"
    by (simp add: influencePrompt_def adhereCloselyClause_def strongReferenceClause_def
        looseInspirationClause_def)
  have distinct: "adhereCloselyClause \<noteq> strongReferenceClause
       \<and> adhereCloselyClause \<noteq> looseInspirationClause
       \<and> strongReferenceClause \<noteq> looseInspirationClause"
    by (simp add: adhereCloselyClause_def strongReferenceClause_def looseInspirationClause_def)
  have bounds: "influencePrompt 30 = looseInspirationClause
       \<and> influencePrompt 70 = strongReferenceClause
       \<and> influencePrompt 71 = adhereCloselyClause"
    by (simp add: influencePrompt_def adhereCloselyClause_def strongReferenceClause_def
        looseInspirationClause_def)
  have "finalPrompt b influence c s q =
           fullPrompt b c s @ influencePrompt influence @ facePreservationInstruction
             @ qualityPrompt q"
    by (simp add: finalPrompt_def)
  with bands distinct bounds show ?thesis by simp
qed

theorem influence_bands_witness:
  "influencePrompt 0 = looseInspirationClause
   \<and> influencePrompt 50 = strongReferenceClause
   \<and> influencePrompt 100 = adhereCloselyClause
   \<and> finalPrompt ''Make it noir.'' 50 [] [] ''standard'' =
       ''Make it noir.'' @ strongReferenceClause @ facePreservationInstruction
         @ standardQualityClause"
proof -
  have lo: "influencePrompt 0 = looseInspirationClause"
    using influence_bands [of 0] by simp
  have mid: "influencePrompt 50 = strongReferenceClause
      \<and> finalPrompt ''Make it noir.'' 50 [] [] ''standard'' =
          fullPrompt ''Make it noir.'' [] [] @ influencePrompt 50
            @ facePreservationInstruction @ qualityPrompt ''standard''"
    using influence_bands [of 50 "''Make it noir.''" "[]" "[]" "''standard''"] by simp
  have hi: "influencePrompt 100 = adhereCloselyClause"
    using influence_bands [of 100] by simp
  have full: "fullPrompt ''Make it noir.'' [] [] = ''Make it noir.''"
    by (simp add: fullPrompt_clauses blank_def)
  have q: "qualityPrompt ''standard'' = standardQualityClause"
    by (simp add: qualityPrompt_def standardQualityClause_def)
  from lo mid hi full q show ?thesis by simp
qed

text \<open>
  C3. The composed prompt is the concatenation, in this order, of the base style text, the
  optional character clause, the optional scene clause, the influence clause, the
  face-preservation clause and the quality clause. For the base text
  "Transform to cyberpunk", influence 85, character "a scarred pilot", an empty scene and
  quality "high" it is the base text, the clause quoting "a scarred pilot", the
  adhere-closely clause, the face-preservation sentence and the HD clause, and the text
  that opens a scene clause occurs nowhere in it. The face-preservation clause is named
  here by its own text, not by the program's constant.
\<close>

theorem prompt_order:
  "(\<exists>cc sc. (cc = [] \<or> cc = characterClause c) \<and> (sc = [] \<or> sc = sceneClause s)
       \<and> finalPrompt b i c s q =
           b @ cc @ sc @ influencePrompt i @ facePreservationClause @ qualityPrompt q)
   \<and> finalPrompt ''Transform to cyberpunk'' 85 ''a scarred pilot'' [] ''high'' =
       ''Transform to cyberpunk'' @ characterClause ''a scarred pilot'' @ adhereCloselyClause
         @ facePreservationClause @ hdQualityClause
   \<and> sublist (quoted ''a scarred pilot'')
       (finalPrompt ''Transform to cyberpunk'' 85 ''a scarred pilot'' [] ''high'')
   \<and> \<not> sublist '' The scene and action should be:''
       (finalPrompt ''Transform to cyberpunk'' 85 ''a scarred pilot'' [] ''high'')"
proof -
  have face: "facePreservationInstruction = facePreservationClause"
    by (simp add: facePreservationInstruction_def facePreservationClause_def)
  let ?cc = "if blank c then [] else characterClause c"
  let ?sc = "if blank s then [] else sceneClause s"
  have "(?cc = [] \<or> ?cc = characterClause c) \<and> (?sc = [] \<or> ?sc = sceneClause s)
       \<and> finalPrompt b i c s q =
           b @ ?cc @ ?sc @ influencePrompt i @ facePreservationClause @ qualityPrompt q"
    by (simp add: finalPrompt_clauses face)
  then have order: "\<exists>cc sc. (cc = [] \<or> cc = characterClause c) \<and> (sc = [] \<or> sc = sceneClause s)
       \<and> finalPrompt b i c s q =
           b @ cc @ sc @ influencePrompt i @ facePreservationClause @ qualityPrompt q"
    by blast
  have ex: "finalPrompt ''Transform to cyberpunk'' 85 ''a scarred pilot'' [] ''high'' =
       ''Transform to cyberpunk'' @ characterClause ''a scarred pilot'' @ adhereCloselyClause
         @ facePreservationClause @ hdQualityClause"
    by (simp add: finalPrompt_clauses face blank_def isWhiteSpace_def influencePrompt_def
        adhereCloselyClause_def qualityPrompt_def hdQualityClause_def)
  have "sublist (quoted ''a scarred pilot'') (characterClause ''a scarred pilot'')"
    unfolding characterClause_def by (rule sublist_appendI)
  then have pilot: "sublist (quoted ''a scarred pilot'')
       (finalPrompt ''Transform to cyberpunk'' 85 ''a scarred pilot'' [] ''high'')"
    unfolding ex by (metis sublist_append)
  have noscene: "\<not> sublist '' The scene and action should be:''
       (finalPrompt ''Transform to cyberpunk'' 85 ''a scarred pilot'' [] ''high'')"
    unfolding ex characterClause_def quoted_def adhereCloselyClause_def
      facePreservationClause_def hdQualityClause_def
    by code_simp
  from order ex pilot noscene show ?thesis by blast
qed

text \<open>
  C4. A blank character description (empty, or white space only) adds nothing to the
  prompt, and so does a blank scene description; a description that is not blank is
  appended inside its clause, unchanged and between double quotes, so the quoted text
  occurs in the composed prompt.
\<close>

theorem blank_or_quoted:
  "finalPrompt b i c s q =
     b @ (if blank c then [] else characterClause c) @ (if blank s then [] else sceneClause s)
       @ influencePrompt i @ facePreservationInstruction @ qualityPrompt q
   \<and> (\<not> blank c \<longrightarrow> sublist (quoted c) (finalPrompt b i c s q))
   \<and> (\<not> blank s \<longrightarrow> sublist (quoted s) (finalPrompt b i c s q))
   \<and> (blank c \<and> blank s \<longrightarrow>
        finalPrompt b i c s q =
          b @ influencePrompt i @ facePreservationInstruction @ qualityPrompt q)
   \<and> blank []"
proof -
  have eq: "finalPrompt b i c s q =
     b @ (if blank c then [] else characterClause c) @ (if blank s then [] else sceneClause s)
       @ influencePrompt i @ facePreservationInstruction @ qualityPrompt q"
    by (rule finalPrompt_clauses)
  have qc: "sublist (quoted c) (characterClause c)"
    unfolding characterClause_def by (rule sublist_appendI)
  have qs: "sublist (quoted s) (sceneClause s)"
    unfolding sceneClause_def by (rule sublist_appendI)
  have c: "sublist (quoted c) (finalPrompt b i c s q)" if "\<not> blank c"
  proof -
    have "sublist (characterClause c) (finalPrompt b i c s q)"
      using that by (simp add: eq)
    with qc show ?thesis by (rule sublist_order.order_trans)
  qed
  have s: "sublist (quoted s) (finalPrompt b i c s q)" if "\<not> blank s"
  proof -
    have "sublist (sceneClause s) (finalPrompt b i c s q)"
      using that by (simp add: eq sublist_middle)
    with qs show ?thesis by (rule sublist_order.order_trans)
  qed
  have none: "finalPrompt b i c s q =
          b @ influencePrompt i @ facePreservationInstruction @ qualityPrompt q"
    if "blank c \<and> blank s"
    using that by (simp add: eq)
  have "blank []" by (simp add: blank_def)
  with eq c s none show ?thesis by blast
qed

theorem blank_or_quoted_witness:
  "blank [CHR 0x20, CHR 0x09, CHR 0x0A] \<and> \<not> blank ''on a roof''
   \<and> finalPrompt ''Make it noir.'' 20 [CHR 0x20, CHR 0x09, CHR 0x0A] ''on a roof'' ''standard'' =
       ''Make it noir.'' @ sceneClause ''on a roof'' @ looseInspirationClause
         @ facePreservationInstruction @ standardQualityClause
   \<and> sublist (quoted ''on a roof'')
       (finalPrompt ''Make it noir.'' 20 [CHR 0x20, CHR 0x09, CHR 0x0A] ''on a roof'' ''standard'')
   \<and> finalPrompt ''Make it noir.'' 20 [CHR 0x20, CHR 0x09, CHR 0x0A] ''  '' ''standard'' =
       ''Make it noir.'' @ looseInspirationClause @ facePreservationInstruction
         @ standardQualityClause"
proof -
  have b: "blank [CHR 0x20, CHR 0x09, CHR 0x0A] \<and> \<not> blank ''on a roof'' \<and> blank ''  ''"
    by (simp add: blank_def isWhiteSpace_def)
  have i: "influencePrompt 20 = looseInspirationClause"
    by (simp add: influencePrompt_def looseInspirationClause_def)
  have q: "qualityPrompt ''standard'' = standardQualityClause"
    by (simp add: qualityPrompt_def standardQualityClause_def)
  note roof = blank_or_quoted [of "''Make it noir.''" 20 "[CHR 0x20, CHR 0x09, CHR 0x0A]"
      "''on a roof''" "''standard''"]
  note none = blank_or_quoted [of "''Make it noir.''" 20 "[CHR 0x20, CHR 0x09, CHR 0x0A]"
      "''  ''" "''standard''"]
  have e1: "finalPrompt ''Make it noir.'' 20 [CHR 0x20, CHR 0x09, CHR 0x0A] ''on a roof''
        ''standard'' =
       ''Make it noir.'' @ sceneClause ''on a roof'' @ looseInspirationClause
         @ facePreservationInstruction @ standardQualityClause"
    using roof b i q by simp
  have e2: "sublist (quoted ''on a roof'')
       (finalPrompt ''Make it noir.'' 20 [CHR 0x20, CHR 0x09, CHR 0x0A] ''on a roof'' ''standard'')"
    using roof b by blast
  have e3: "finalPrompt ''Make it noir.'' 20 [CHR 0x20, CHR 0x09, CHR 0x0A] ''  '' ''standard'' =
       ''Make it noir.'' @ looseInspirationClause @ facePreservationInstruction
         @ standardQualityClause"
    using none b i q by simp
  from b e1 e2 e3 show ?thesis by blast
qed

text \<open>
  C5. Whatever the base prompt, the influence, the two descriptions and the quality
  selector, the face-preservation sentence, written out, occurs in the composed prompt.
\<close>

theorem face_preservation_always:
  "sublist
     '' It is absolutely critical to preserve the person's face from the original image perfectly. Do not alter the facial features, structure, or identity in any way.''
     (finalPrompt b i c s q)
   \<and> sublist facePreservationClause (finalPrompt b i c s q)
   \<and> facePreservationClause \<noteq> []"
proof -
  have "finalPrompt b i c s q =
      fullPrompt b c s @ influencePrompt i @ facePreservationClause @ qualityPrompt q"
    by (simp add: finalPrompt_def facePreservationInstruction_def facePreservationClause_def)
  then have "sublist facePreservationClause (finalPrompt b i c s q)"
    by (simp only: sublist_middle)
  moreover have "facePreservationClause \<noteq> []"
    by (simp add: facePreservationClause_def)
  ultimately show ?thesis
    by (simp add: facePreservationClause_def)
qed

text \<open>
  C6. For every quality selector other than "high" the composed prompt ends with the
  standard-quality clause (about 720p); for "high" it ends with the HD clause (2K to 4K).
  The two clauses are different.
\<close>

theorem quality_clause_last:
  "(q \<noteq> ''high'' \<longrightarrow> suffix standardQualityClause (finalPrompt b i c s q))
   \<and> suffix hdQualityClause (finalPrompt b i c s ''high'')
   \<and> standardQualityClause \<noteq> hdQualityClause"
proof -
  have fin: "finalPrompt b i c s q' =
      (fullPrompt b c s @ influencePrompt i @ facePreservationInstruction) @ qualityPrompt q'"
    for q'
    by (simp add: finalPrompt_def)
  have std: "suffix standardQualityClause (finalPrompt b i c s q)" if "q \<noteq> ''high''"
  proof -
    have "qualityPrompt q = standardQualityClause"
      using that by (simp add: qualityPrompt_def standardQualityClause_def)
    then show ?thesis by (simp only: fin suffix_def) blast
  qed
  have "qualityPrompt ''high'' = hdQualityClause"
    by (simp add: qualityPrompt_def hdQualityClause_def)
  then have hd: "suffix hdQualityClause (finalPrompt b i c s ''high'')"
    by (simp only: fin suffix_def) blast
  have "standardQualityClause \<noteq> hdQualityClause"
    by (simp add: standardQualityClause_def hdQualityClause_def)
  with std hd show ?thesis by blast
qed

theorem quality_clause_last_witness:
  "suffix standardQualityClause (finalPrompt ''Make it noir.'' 50 [] [] ''standard'')
   \<and> suffix standardQualityClause (finalPrompt ''Make it noir.'' 50 [] [] ''HIGH'')
   \<and> suffix standardQualityClause (finalPrompt ''Make it noir.'' 50 [] [] [])"
  using quality_clause_last [of "''standard''" "''Make it noir.''" 50 "[]" "[]"]
    quality_clause_last [of "''HIGH''" "''Make it noir.''" 50 "[]" "[]"]
    quality_clause_last [of "[]" "''Make it noir.''" 50 "[]" "[]"]
  by simp

section \<open>Properties of the generation client\<close>


lemma scanParts_first_image:
  "\<forall>q\<in>set pre. inlineData q = None \<Longrightarrow> inlineData p = Some blob
     \<Longrightarrow> scanParts (pre @ p # post) = Some (data blob)"
  by (induction pre) simp_all

lemma generateImageFromImage_resolved:
  assumes "generateContent env (transformRequest b64 mt (finalPrompt bp i c s q)) = Inr response"
    and "responseParts response = Inr ps"
  shows "generateImageFromImage env b64 mt bp i c s q w =
     (case scanParts ps of
        Some d \<Rightarrow> (Inr d, send (transformRequest b64 mt (finalPrompt bp i c s q)) w)
      | None \<Rightarrow>
          (Inl (Error ''Failed to generate image. Please check the console for more details.''),
           console_error [Str ''Error calling Gemini API:'',
               Thrown (Error ''No image data found in the Gemini API response.'')]
             (send (transformRequest b64 mt (finalPrompt bp i c s q)) w)))"
  using assms
  by (simp add: generateImageFromImage_def generateImageFromImage_try_def Let_def
      split: option.split)

lemma removeImageBackground_resolved:
  assumes "generateContent env (removeBackgroundRequest b64 mt) = Inr response"
    and "responseParts response = Inr ps"
  shows "removeImageBackground env b64 mt w =
     (case scanParts ps of
        Some d \<Rightarrow> (Inr d, send (removeBackgroundRequest b64 mt) w)
      | None \<Rightarrow>
          (Inl (Error ''Failed to remove background. Please check the console for more details.''),
           console_error [Str ''Error calling Gemini API for background removal:'',
               Thrown (Error ''No image data found in the Gemini API response for background removal.'')]
             (send (removeBackgroundRequest b64 mt) w)))"
  using assms
  by (simp add: removeImageBackground_def removeImageBackground_try_def Let_def
      split: option.split)

lemma textOnly_parts: "responseParts textOnlyResponse =
   Inr [\<lparr>inlineData = None, text = Some ''I cannot edit this picture.''\<rparr>]"
  by (simp add: responseParts_def textOnlyResponse_def)


lemma imageSecond_parts: "responseParts imageSecondResponse =
   Inr [\<lparr>inlineData = None, text = Some ''Here is your picture.''\<rparr>,
        \<lparr>inlineData = Some \<lparr>data = ''AAAA'', mimeType = ''image/png''\<rparr>, text = None\<rparr>,
        \<lparr>inlineData = Some \<lparr>data = ''BBBB'', mimeType = ''image/png''\<rparr>, text = None\<rparr>]"
  by (simp add: responseParts_def imageSecondResponse_def)





text \<open>
  C7. When the response's list of parts contains a part with inline image data, the list
  splits at the first such part (no part before it carries image data) and both
  operations return the data of that part; no error is logged. With a text part first and
  image parts second and third, the second part's data is returned.
\<close>

theorem first_image_part_returned:
  assumes "responseParts response = Inr ps"
    and "\<exists>p\<in>set ps. inlineData p \<noteq> None"
  shows "\<exists>pre p blob post.
           ps = pre @ p # post \<and> (\<forall>q\<in>set pre. inlineData q = None) \<and> inlineData p = Some blob
         \<and> (generateContent env (transformRequest b64 mt (finalPrompt bp i c s q)) = Inr response \<longrightarrow>
               generateImageFromImage env b64 mt bp i c s q w =
                 (Inr (data blob), send (transformRequest b64 mt (finalPrompt bp i c s q)) w))
         \<and> (generateContent env (removeBackgroundRequest b64 mt) = Inr response \<longrightarrow>
               removeImageBackground env b64 mt w =
                 (Inr (data blob), send (removeBackgroundRequest b64 mt) w))"
proof -
  from split_list_first_prop [OF assms(2)] obtain pre p post where
    split: "ps = pre @ p # post" and p: "inlineData p \<noteq> None"
    and pre: "\<forall>q\<in>set pre. \<not> inlineData q \<noteq> None"
    by blast
  from p obtain blob where blob: "inlineData p = Some blob" by auto
  from pre have pre': "\<forall>q\<in>set pre. inlineData q = None" by simp
  have scan: "scanParts ps = Some (data blob)"
    unfolding split using pre' blob by (rule scanParts_first_image)
  have t: "generateImageFromImage env b64 mt bp i c s q w =
      (Inr (data blob), send (transformRequest b64 mt (finalPrompt bp i c s q)) w)"
    if "generateContent env (transformRequest b64 mt (finalPrompt bp i c s q)) = Inr response"
    using that assms(1) scan by (simp add: generateImageFromImage_resolved)
  have r: "removeImageBackground env b64 mt w =
      (Inr (data blob), send (removeBackgroundRequest b64 mt) w)"
    if "generateContent env (removeBackgroundRequest b64 mt) = Inr response"
    using that assms(1) scan by (simp add: removeImageBackground_resolved)
  from split pre' blob t r show ?thesis by blast
qed

theorem first_image_part_returned_witness:
  "fst (generateImageFromImage (answering (Inr imageSecondResponse)) ''QUJD'' ''image/jpeg''
        ''Make it noir.'' 50 [] [] ''standard'' emptyWorld) = Inr ''AAAA''
   \<and> fst (removeImageBackground (answering (Inr imageSecondResponse)) ''QUJD'' ''image/jpeg''
        emptyWorld) = Inr ''AAAA''"
proof -
  let ?t = "\<lparr>inlineData = None, text = Some ''Here is your picture.''\<rparr>"
  let ?a = "\<lparr>inlineData = Some \<lparr>data = ''AAAA'', mimeType = ''image/png''\<rparr>, text = None\<rparr>"
  let ?b = "\<lparr>inlineData = Some \<lparr>data = ''BBBB'', mimeType = ''image/png''\<rparr>, text = None\<rparr>"
  have ex: "\<exists>p\<in>set [?t, ?a, ?b]. inlineData p \<noteq> None" by simp
  have g: "generateContent (answering (Inr imageSecondResponse)) request = Inr imageSecondResponse"
    for request by (simp add: answering_def)
  from first_image_part_returned [OF imageSecond_parts ex,
      of "answering (Inr imageSecondResponse)" "''QUJD''" "''image/jpeg''" "''Make it noir.''"
        50 "[]" "[]" "''standard''" emptyWorld]
  obtain pre p blob post where
    split: "[?t, ?a, ?b] = pre @ p # post"
    and pre: "\<forall>q\<in>set pre. inlineData q = None"
    and blob: "inlineData p = Some blob"
    and t: "generateImageFromImage (answering (Inr imageSecondResponse)) ''QUJD'' ''image/jpeg''
        ''Make it noir.'' 50 [] [] ''standard'' emptyWorld =
        (Inr (data blob), send (transformRequest ''QUJD'' ''image/jpeg''
           (finalPrompt ''Make it noir.'' 50 [] [] ''standard'')) emptyWorld)"
    and r: "removeImageBackground (answering (Inr imageSecondResponse)) ''QUJD'' ''image/jpeg''
        emptyWorld = (Inr (data blob), send (removeBackgroundRequest ''QUJD'' ''image/jpeg'') emptyWorld)"
    using g by blast
  from split pre blob have "data blob = ''AAAA''"
    by (auto simp: Cons_eq_append_conv)
  with t r show ?thesis by simp
qed

section \<open>Properties of the handlers\<close>

lemma remove_try_image_second:
  "handleRemoveBackgroundClick_try (answering (Inr imageSecondResponse)) catFile emptyWorld =
     (Inr \<lparr>name = ''bg_removed_cat.jpg'', type = ''image/png'', bytes = ''AAAA''\<rparr>,
      send (removeBackgroundRequest ''QUJD'' ''image/jpeg'') emptyWorld)"
  by (simp add: handleRemoveBackgroundClick_try_def answering_def catFile_def
      removeImageBackground_def removeImageBackground_try_def Let_def imageSecond_parts
      base64ToFile_def)

lemma remove_try_text_only:
  "fst (handleRemoveBackgroundClick_try (answering (Inr textOnlyResponse)) catFile emptyWorld) =
     Inl (Error ''Failed to remove background. Please check the console for more details.'')"
  by (simp add: handleRemoveBackgroundClick_try_def answering_def catFile_def
      removeImageBackground_def removeImageBackground_try_def Let_def textOnly_parts)

text \<open>
  The \<open>try\<close> block of \<open>handleRemoveBackgroundClick\<close> throws exactly when reading the file
  fails, or the remove-background operation fails, or turning its result into a file
  fails.
\<close>

lemma remove_try_failure_modes:
  "(\<exists>err. fst (handleRemoveBackgroundClick_try env file w) = Inl err) \<longleftrightarrow>
     (\<exists>e. fileToBase64 env file = Inl e)
   \<or> (\<exists>b e. fileToBase64 env file = Inr b
          \<and> fst (removeImageBackground env b (type file) w) = Inl e)
   \<or> (\<exists>b d e. fileToBase64 env file = Inr b
          \<and> fst (removeImageBackground env b (type file) w) = Inr d
          \<and> base64ToFile env d (''bg_removed_'' @ name file) = Inl e)"
  by (cases "fileToBase64 env file")
    (auto simp: handleRemoveBackgroundClick_try_def Let_def split: sum.splits prod.splits)

text \<open>
  C8, as the code has it. The state has one cell for the current image. A remove-background call that fails
  (its \<open>try\<close> block throws, at whichever step) leaves that cell as it was in every state it
  goes through and in the state it ends in; a call that succeeds goes only through states
  whose current image is the old one or the new file, and ends with the new file; a call
  made with no image leaves the cell empty. So at most one image is current at any time,
  and once an image is current, one image is current in every state of the call.
\<close>

theorem remove_background_replaces_only_on_success:
  "(uploadedImage s = None \<longrightarrow>
      (\<forall>s'\<in>set (states s (fst (handleRemoveBackgroundClick env s w))). uploadedImage s' = None))
   \<and> (uploadedImage s = Some file \<and> fst (handleRemoveBackgroundClick_try env file w) = Inl err \<longrightarrow>
      (\<forall>s'\<in>set (states s (fst (handleRemoveBackgroundClick env s w))).
          uploadedImage s' = Some file)
      \<and> uploadedImage (render s (fst (handleRemoveBackgroundClick env s w))) = Some file)
   \<and> (uploadedImage s = Some file \<and> fst (handleRemoveBackgroundClick_try env file w) = Inr new \<longrightarrow>
      (\<forall>s'\<in>set (states s (fst (handleRemoveBackgroundClick env s w))).
          uploadedImage s' = Some file \<or> uploadedImage s' = Some new)
      \<and> uploadedImage (render s (fst (handleRemoveBackgroundClick env s w))) = Some new)
   \<and> (uploadedImage s \<noteq> None \<longrightarrow>
      (\<forall>s'\<in>set (states s (fst (handleRemoveBackgroundClick env s w))). uploadedImage s' \<noteq> None))"
proof -
  have some: "\<forall>s'\<in>set (states s (fst (handleRemoveBackgroundClick env s w))). uploadedImage s' \<noteq> None"
    if "uploadedImage s \<noteq> None"
  proof -
    from that obtain f where f: "uploadedImage s = Some f" by auto
    show ?thesis
    proof (cases "handleRemoveBackgroundClick_try env f w")
      case (Pair r w1)
      with f show ?thesis
        by (cases r) (simp_all add: handleRemoveBackgroundClick_def)
    qed
  qed
  have none: "\<forall>s'\<in>set (states s (fst (handleRemoveBackgroundClick env s w))). uploadedImage s' = None"
    if "uploadedImage s = None"
    using that by (simp add: handleRemoveBackgroundClick_def)
  have fail: "(\<forall>s'\<in>set (states s (fst (handleRemoveBackgroundClick env s w))).
          uploadedImage s' = Some file)
      \<and> uploadedImage (render s (fst (handleRemoveBackgroundClick env s w))) = Some file"
    if "uploadedImage s = Some file" "fst (handleRemoveBackgroundClick_try env file w) = Inl err"
    using that by (cases "handleRemoveBackgroundClick_try env file w")
      (simp add: handleRemoveBackgroundClick_def)
  have ok: "(\<forall>s'\<in>set (states s (fst (handleRemoveBackgroundClick env s w))).
          uploadedImage s' = Some file \<or> uploadedImage s' = Some new)
      \<and> uploadedImage (render s (fst (handleRemoveBackgroundClick env s w))) = Some new"
    if "uploadedImage s = Some file" "fst (handleRemoveBackgroundClick_try env file w) = Inr new"
    using that by (cases "handleRemoveBackgroundClick_try env file w")
      (simp add: handleRemoveBackgroundClick_def)
  from none fail ok some show ?thesis by blast
qed

theorem remove_background_replaces_only_on_success_witness:
  "uploadedImage (render uploadedState
      (fst (handleRemoveBackgroundClick (answering (Inr imageSecondResponse)) uploadedState
         emptyWorld))) =
     Some \<lparr>name = ''bg_removed_cat.jpg'', type = ''image/png'', bytes = ''AAAA''\<rparr>
   \<and> uploadedImage (render uploadedState
      (fst (handleRemoveBackgroundClick (answering (Inr textOnlyResponse)) uploadedState
         emptyWorld))) = Some catFile
   \<and> list_all (\<lambda>s'. uploadedImage s' = Some catFile)
       (states uploadedState
         (fst (handleRemoveBackgroundClick (answering (Inr textOnlyResponse)) uploadedState
            emptyWorld)))
   \<and> list_all (\<lambda>s'. uploadedImage s' = None)
       (states initialState
         (fst (handleRemoveBackgroundClick (answering (Inr imageSecondResponse)) initialState
            emptyWorld)))"
proof -
  have up: "uploadedImage uploadedState = Some catFile"
    by (simp add: uploadedState_def)
  have init: "uploadedImage initialState = None"
    by (simp add: initialState_def)
  have ok: "fst (handleRemoveBackgroundClick_try (answering (Inr imageSecondResponse)) catFile
      emptyWorld) = Inr \<lparr>name = ''bg_removed_cat.jpg'', type = ''image/png'', bytes = ''AAAA''\<rparr>"
    by (simp add: remove_try_image_second)
  note success = remove_background_replaces_only_on_success
    [of uploadedState "answering (Inr imageSecondResponse)" emptyWorld catFile _
      "\<lparr>name = ''bg_removed_cat.jpg'', type = ''image/png'', bytes = ''AAAA''\<rparr>"]
  note failure = remove_background_replaces_only_on_success
    [of uploadedState "answering (Inr textOnlyResponse)" emptyWorld catFile
      "Error ''Failed to remove background. Please check the console for more details.''"]
  note empty = remove_background_replaces_only_on_success
    [of initialState "answering (Inr imageSecondResponse)" emptyWorld]
  from success up ok have a: "uploadedImage (render uploadedState
      (fst (handleRemoveBackgroundClick (answering (Inr imageSecondResponse)) uploadedState
         emptyWorld))) =
     Some \<lparr>name = ''bg_removed_cat.jpg'', type = ''image/png'', bytes = ''AAAA''\<rparr>"
    by blast
  from failure up remove_try_text_only have b: "uploadedImage (render uploadedState
      (fst (handleRemoveBackgroundClick (answering (Inr textOnlyResponse)) uploadedState
         emptyWorld))) = Some catFile"
    by blast
  from failure up remove_try_text_only have c: "list_all (\<lambda>s'. uploadedImage s' = Some catFile)
       (states uploadedState
         (fst (handleRemoveBackgroundClick (answering (Inr textOnlyResponse)) uploadedState
            emptyWorld)))"
    unfolding list_all_iff by blast
  from empty init have d: "list_all (\<lambda>s'. uploadedImage s' = None)
       (states initialState
         (fst (handleRemoveBackgroundClick (answering (Inr imageSecondResponse)) initialState
            emptyWorld)))"
    unfolding list_all_iff by blast
  from a b c d show ?thesis by blast
qed

text \<open>
  C8 as stated fails in its first sentence: the component starts with no image at all, and
  a remove-background call made then goes through states none of which has a current
  image.
\<close>

theorem no_image_current_initially:
  "uploadedImage initialState = None
   \<and> states initialState
       (fst (handleRemoveBackgroundClick (answering (Inr imageSecondResponse)) initialState
          emptyWorld)) =
     [initialState, initialState\<lparr>error := Some ''Please upload an image first.''\<rparr>]
   \<and> uploadedImage (initialState\<lparr>error := Some ''Please upload an image first.''\<rparr>) = None"
  by (simp add: initialState_def handleRemoveBackgroundClick_def)

text \<open>
  C9. When no image is uploaded, or no style is selected, \<open>handleGenerateClick\<close> makes one
  setter call, which sets the error message "Please upload an image and select a style.",
  and nothing else: no request is sent and nothing is logged, the loading flag and the
  generated image are as before.
\<close>

theorem generate_needs_image_and_style:
  assumes "uploadedImage s = None \<or> selectedStyle s = []"
  shows "handleGenerateClick options env s w =
           ([SetError (Some ''Please upload an image and select a style.'')], w)
       \<and> render s (fst (handleGenerateClick options env s w)) =
           s\<lparr>error := Some ''Please upload an image and select a style.''\<rparr>
       \<and> states s (fst (handleGenerateClick options env s w)) =
           [s, s\<lparr>error := Some ''Please upload an image and select a style.''\<rparr>]
       \<and> requests (snd (handleGenerateClick options env s w)) = requests w
       \<and> isLoading (render s (fst (handleGenerateClick options env s w))) = isLoading s
       \<and> generatedImage (render s (fst (handleGenerateClick options env s w))) =
           generatedImage s"
proof -
  have "handleGenerateClick options env s w =
      ([SetError (Some ''Please upload an image and select a style.'')], w)"
    using assms by (auto simp: handleGenerateClick_def truthy_def split: option.split)
  then show ?thesis by simp
qed

theorem generate_needs_image_and_style_witness:
  "handleGenerateClick styleOptions (answering (Inr imageSecondResponse)) initialState emptyWorld =
     ([SetError (Some ''Please upload an image and select a style.'')], emptyWorld)
   \<and> handleGenerateClick styleOptions (answering (Inr imageSecondResponse)) uploadedState emptyWorld =
     ([SetError (Some ''Please upload an image and select a style.'')], emptyWorld)
   \<and> handleGenerateClick styleOptions (answering (Inr imageSecondResponse))
       (initialState\<lparr>selectedStyle := ''cyberpunk''\<rparr>) emptyWorld =
     ([SetError (Some ''Please upload an image and select a style.'')], emptyWorld)"
  using generate_needs_image_and_style
      [of initialState styleOptions "answering (Inr imageSecondResponse)" emptyWorld]
    generate_needs_image_and_style
      [of uploadedState styleOptions "answering (Inr imageSecondResponse)" emptyWorld]
    generate_needs_image_and_style
      [of "initialState\<lparr>selectedStyle := ''cyberpunk''\<rparr>" styleOptions
        "answering (Inr imageSecondResponse)" emptyWorld]
  by (simp add: initialState_def uploadedState_def)

text \<open>
  C10. After \<open>handleImageUpload\<close> the uploaded image is the new file, the generated image
  and the error are cleared, and every other cell of the state (the selected style, the
  influence, the two descriptions, the quality selector, and the two busy flags) is as
  before.
\<close>

theorem upload_replaces_image_and_clears_result:
  "render s (handleImageUpload file) =
     s\<lparr>uploadedImage := Some file, generatedImage := None, error := None\<rparr>
   \<and> uploadedImage (render s (handleImageUpload file)) = Some file
   \<and> generatedImage (render s (handleImageUpload file)) = None
   \<and> error (render s (handleImageUpload file)) = None
   \<and> selectedStyle (render s (handleImageUpload file)) = selectedStyle s
   \<and> referenceInfluence (render s (handleImageUpload file)) = referenceInfluence s
   \<and> characterDescription (render s (handleImageUpload file)) = characterDescription s
   \<and> sceneDescription (render s (handleImageUpload file)) = sceneDescription s
   \<and> outputQuality (render s (handleImageUpload file)) = outputQuality s
   \<and> isLoading (render s (handleImageUpload file)) = isLoading s
   \<and> isRemovingBackground (render s (handleImageUpload file)) = isRemovingBackground s"
  by (simp add: handleImageUpload_def)

end
